theory Spec2Isabelle
  imports Complex_Main
begin

section \<open>Values, tokens and exceptions\<close>

text \<open>
  The flow package of the Weka wrapper passes tokens between actors. This theory embeds the
  transformers of \<^verbatim>\<open>weka/flow/transformer.py\<close> and the one method of
  \<^verbatim>\<open>weka/classifiers.py\<close> they call, \<^verbatim>\<open>Evaluation.crossvalidate_model\<close>.

  Datasets are values (a schema and rows); classifiers, clusterers, associators, filters and
  evaluations are mutable Java objects and live in a store, addressed by reference.
\<close>

type_synonym addr = nat

type_synonym row = "int list"

record instances =
  schema :: "string list"
  rows :: "row list"

text \<open>The Python wrapper classes around Java objects (subclasses count as their base).\<close>

datatype wrapper = WClassifier | WClusterer | WAssociator | WFilter | WEvaluation | WOther

text \<open>
  An object returned by the deserialiser: a reference to a Java object in the store, or a
  dataset.
\<close>

datatype jobject = JRef addr | JInstances instances

datatype pyval =
    PNone
  | PBool bool
  | PInt int
  | PFloat real
  | PStr string
  | PInstances instances
  | PInstance row
  | PWrap wrapper addr
  | PRandom int
  | PModelContainer pyval "pyval option"

datatype token = Token (payload: pyval)

datatype exn =
    Exception string
  | AttributeError string
  | TypeError string
  | KeyError string
  | StopIteration

text \<open>
  \<^verbatim>\<open>do_execute\<close> returns \<^verbatim>\<open>None\<close> or an error message, or it raises.
\<close>

datatype outcome = Returned "string option" | Raised exn

datatype loader = Loader string

section \<open>The Java side\<close>

record jobj =
  jclass :: string
  is_classifier :: bool
  is_clusterer :: bool
  built_on :: "instances option"
  batches :: nat

text \<open>
  The store of Java objects. \<open>next_free\<close> is the allocation pointer;
  \<open>inputformat_calls\<close> counts the calls of \<^verbatim>\<open>Filter.inputformat\<close>, the step that
  fits a filter to a dataset format.
\<close>

record jvm =
  objs :: "addr \<Rightarrow> jobj"
  next_free :: addr
  inputformat_calls :: nat

section \<open>External capabilities\<close>

text \<open>
  What the transformers use from the host language and from modules that are not part of the
  sources: the builtin \<^verbatim>\<open>eval\<close>, \<^verbatim>\<open>str\<close> on values other than integers and
  strings, class names, the file system, the loaders, the deserialiser, and the results the
  Weka engine computes.
\<close>

record env =
  py_eval :: "string \<Rightarrow> exn + pyval"
  str_other :: "pyval \<Rightarrow> string"
  get_classname :: "pyval \<Rightarrow> string"
  class_name :: "pyval \<Rightarrow> string"
  path_exists :: "string \<Rightarrow> bool"
  path_isfile :: "string \<Rightarrow> bool"
  loader_for_file :: "string \<Rightarrow> loader option"
  file_data :: "loader \<Rightarrow> string \<Rightarrow> instances"
  read_all :: "pyval \<Rightarrow> exn + jobject list"
  filter_result :: "jobj \<Rightarrow> instances \<Rightarrow> instances"
  cluster_llh :: "jobj \<Rightarrow> instances \<Rightarrow> int \<Rightarrow> int \<Rightarrow> real"

section \<open>Actors\<close>

text \<open>
  The options of an actor, as \<^verbatim>\<open>resolve_option\<close> returns them (\<^verbatim>\<open>weka.flow.base\<close>
  is not part of the sources; the defaults of \<^verbatim>\<open>fix_options\<close> have these types).
  \<open>value_opt\<close>, \<open>setup_opt\<close>, \<open>filter_opt\<close> and \<open>output_opt\<close> are the options
  \<^verbatim>\<open>"value"\<close>, \<^verbatim>\<open>"setup"\<close>, \<^verbatim>\<open>"filter"\<close> and \<^verbatim>\<open>"output"\<close>.
\<close>

record options =
  incremental :: bool
  use_custom_loader :: bool
  custom_loader :: loader
  storage_name :: string
  value_opt :: string
  expression :: string
  setup_opt :: pyval
  filter_opt :: pyval
  folds :: int
  seed :: int
  discard_predictions :: bool
  output_opt :: pyval

text \<open>
  One actor. A field \<open>p_x\<close> is the Python attribute \<^verbatim>\<open>_x\<close>. The output queue holds
  references to tokens, so an entry may be \<^verbatim>\<open>None\<close>. \<open>storagehandler\<close> is the
  storage dictionary of the handler the actor reaches, \<open>None\<close> when there is no handler.
\<close>

record actor =
  full_name :: string
  options :: options
  p_input :: "token option"
  p_output :: "token option list"
  p_loader :: "loader option"
  p_iterator :: "row list option"
  p_filter :: "addr option"
  p_header :: "instances option"
  storagehandler :: "(string \<rightharpoonup> pyval) option"

datatype actor_class =
    PassThrough
  | LoadDataset
  | SetStorageValue
  | DeleteStorageValue
  | InitStorageValue
  | UpdateStorageValue
  | MathExpression
  | Train
  | Filter
  | CrossValidate
  | ModelReader

section \<open>Host builtins: \<^verbatim>\<open>str\<close> and \<^verbatim>\<open>str.replace\<close>\<close>

definition digit_char :: "nat \<Rightarrow> char" where
  "digit_char d = ''0123456789'' ! d"

fun digits :: "nat \<Rightarrow> string" where
  "digits n = (if n < 10 then [digit_char n] else digits (n div 10) @ [digit_char (n mod 10)])"

declare digits.simps [simp del]

definition str_int :: "int \<Rightarrow> string" where
  "str_int i = (if i < 0 then CHR ''-'' # digits (nat (- i)) else digits (nat i))"

definition py_str :: "env \<Rightarrow> pyval \<Rightarrow> string" where
  "py_str e v = (case v of PInt i \<Rightarrow> str_int i | PStr s \<Rightarrow> s | _ \<Rightarrow> str_other e v)"

text \<open>
  \<^verbatim>\<open>s.replace(old, new)\<close>: every occurrence of \<open>old\<close>, left to right, without
  overlaps; an empty \<open>old\<close> matches before every character and at the end.
\<close>

function replace_from :: "string \<Rightarrow> string \<Rightarrow> string \<Rightarrow> string" where
  "replace_from old new s =
     (if old = [] \<or> s = [] then s
      else if take (length old) s = old then new @ replace_from old new (drop (length old) s)
      else hd s # replace_from old new (tl s))"
  by pat_completeness auto
termination
  by (relation "measure (\<lambda>(old, new, s). length s)") auto

declare replace_from.simps [simp del]

definition replace :: "string \<Rightarrow> string \<Rightarrow> string \<Rightarrow> string" where
  "replace s old new =
     (if old = [] then new @ concat (map (\<lambda>c. c # new) s) else replace_from old new s)"

section \<open>Storage transformers\<close>

text \<open>\<^verbatim>\<open>self.input.payload\<close>: fails on a missing token.\<close>

definition input_payload :: "actor \<Rightarrow> exn + pyval" where
  "input_payload a =
     (case p_input a of
        None \<Rightarrow> Inl (AttributeError ''payload'')
      | Some t \<Rightarrow> Inr (payload t))"

definition no_storage :: string where
  "no_storage = ''No storage handler available!''"

definition SetStorageValue_do_execute :: "actor \<Rightarrow> outcome \<times> actor" where
  "SetStorageValue_do_execute a =
     (case storagehandler a of
        None \<Rightarrow> (Returned (Some no_storage), a)
      | Some st \<Rightarrow>
         (case input_payload a of
            Inl ex \<Rightarrow> (Raised ex, a)
          | Inr v \<Rightarrow>
             (Returned None,
              a\<lparr>storagehandler := Some (st(storage_name (options a) \<mapsto> v)),
                p_output := p_output a @ [p_input a]\<rparr>)))"

definition DeleteStorageValue_do_execute :: "actor \<Rightarrow> outcome \<times> actor" where
  "DeleteStorageValue_do_execute a =
     (case storagehandler a of
        None \<Rightarrow> (Returned (Some no_storage), a)
      | Some st \<Rightarrow>
         (Returned None,
          a\<lparr>storagehandler := Some (st(storage_name (options a) := None)),
            p_output := p_output a @ [p_input a]\<rparr>))"

definition InitStorageValue_do_execute :: "env \<Rightarrow> actor \<Rightarrow> outcome \<times> actor" where
  "InitStorageValue_do_execute e a =
     (case storagehandler a of
        None \<Rightarrow> (Returned (Some no_storage), a)
      | Some st \<Rightarrow>
         (case py_eval e (value_opt (options a)) of
            Inl ex \<Rightarrow> (Raised ex, a)
          | Inr v \<Rightarrow>
             (Returned None,
              a\<lparr>storagehandler := Some (st(storage_name (options a) \<mapsto> v)),
                p_output := p_output a @ [p_input a]\<rparr>)))"

definition UpdateStorageValue_do_execute :: "env \<Rightarrow> actor \<Rightarrow> outcome \<times> actor" where
  "UpdateStorageValue_do_execute e a =
     (case storagehandler a of
        None \<Rightarrow> (Returned (Some no_storage), a)
      | Some st \<Rightarrow>
         (case st (storage_name (options a)) of
            None \<Rightarrow> (Raised (KeyError (storage_name (options a))), a)
          | Some cur \<Rightarrow>
             (case py_eval e (replace (expression (options a)) ''{X}'' (py_str e cur)) of
                Inl ex \<Rightarrow> (Raised ex, a)
              | Inr v \<Rightarrow>
                 (Returned None,
                  a\<lparr>storagehandler := Some (st(storage_name (options a) \<mapsto> v)),
                    p_output := p_output a @ [p_input a]\<rparr>))))"

section \<open>Producing output\<close>

text \<open>
  Modelled from the spec: \<^verbatim>\<open>OutputProducer.has_output\<close> and
  \<^verbatim>\<open>OutputProducer.output\<close> of \<^verbatim>\<open>weka.flow.base\<close>, which the sources call through
  \<^verbatim>\<open>super\<close>: an actor has a single output queue, \<^verbatim>\<open>has_output\<close> is true if at
  least one output token is present, and \<^verbatim>\<open>output\<close> returns the next token, or
  \<^verbatim>\<open>None\<close> if none is available.
\<close>

definition OutputProducer_has_output :: "actor \<Rightarrow> bool" where
  "OutputProducer_has_output a = (p_output a \<noteq> [])"

definition OutputProducer_output :: "actor \<Rightarrow> token option \<times> actor" where
  "OutputProducer_output a =
     (case p_output a of
        [] \<Rightarrow> (None, a)
      | t # ts \<Rightarrow> (t, a\<lparr>p_output := ts\<rparr>))"

section \<open>LoadDataset\<close>

definition quote :: char where
  "quote = CHR 0x27"

text \<open>
  Modelled from the spec: the loader capability, \<^verbatim>\<open>load(path, incremental)\<close>, gives a
  dataset or a lazy sequence of its rows. \<open>file_data\<close> is the dataset the loader reads; in
  incremental mode \<^verbatim>\<open>load_file\<close> gives its structure and the iterator its rows, in order.
\<close>

definition load_file :: "env \<Rightarrow> loader \<Rightarrow> string \<Rightarrow> bool \<Rightarrow> instances" where
  "load_file e l fname incr =
     (if incr then (file_data e l fname)\<lparr>rows := []\<rparr> else file_data e l fname)"

definition loader_iter :: "env \<Rightarrow> loader \<Rightarrow> string \<Rightarrow> row list" where
  "loader_iter e l fname = rows (file_data e l fname)"

definition iterator_next :: "row list \<Rightarrow> exn + row \<times> row list" where
  "iterator_next it = (case it of [] \<Rightarrow> Inl StopIteration | r # rs \<Rightarrow> Inr (r, rs))"

definition LoadDataset_check_input :: "env \<Rightarrow> actor \<Rightarrow> token option \<Rightarrow> exn + unit" where
  "LoadDataset_check_input e a tok =
     (case tok of
        None \<Rightarrow> Inl (Exception (full_name a @ '': No token provided!''))
      | Some t \<Rightarrow>
         (case payload t of
            PStr _ \<Rightarrow> Inr ()
          | v \<Rightarrow> Inl (Exception (full_name a @ '': Unhandled class: '' @ get_classname e v))))"

definition LoadDataset_do_execute :: "env \<Rightarrow> actor \<Rightarrow> outcome \<times> actor" where
  "LoadDataset_do_execute e a =
     (case input_payload a of
        Inl ex \<Rightarrow> (Raised ex, a)
      | Inr v \<Rightarrow>
         (let fname = py_str e v in
          if \<not> path_exists e fname then
            (Returned (Some (''File '' @ [quote] @ fname @ [quote] @ '' does not exist!'')), a)
          else if \<not> path_isfile e fname then
            (Returned (Some (''Location '' @ [quote] @ fname @ [quote] @ '' is not a file!'')), a)
          else
            (let l = (if use_custom_loader (options a) then Some (custom_loader (options a))
                      else loader_for_file e fname);
                 a1 = a\<lparr>p_loader := l\<rparr>
             in case l of
                  None \<Rightarrow> (Raised (AttributeError ''load_file''), a1)
                | Some ld \<Rightarrow>
                   (let dataset = load_file e ld fname (incremental (options a)) in
                    if \<not> incremental (options a) then
                      (Returned None,
                       a1\<lparr>p_output := p_output a1 @ [Some (Token (PInstances dataset))]\<rparr>)
                    else
                      (Returned None, a1\<lparr>p_iterator := Some (loader_iter e ld fname)\<rparr>)))))"

definition LoadDataset_has_output :: "actor \<Rightarrow> bool" where
  "LoadDataset_has_output a = (OutputProducer_has_output a \<or> p_iterator a \<noteq> None)"

definition LoadDataset_output :: "actor \<Rightarrow> token option \<times> actor" where
  "LoadDataset_output a =
     (case p_iterator a of
        Some it \<Rightarrow>
         (case iterator_next it of
            Inr (inst, it') \<Rightarrow> (Some (Token (PInstance inst)), a\<lparr>p_iterator := Some it'\<rparr>)
          | Inl ex \<Rightarrow> (None, a\<lparr>p_iterator := None\<rparr>))
      | None \<Rightarrow> OutputProducer_output a)"

text \<open>The results of \<open>n\<close> successive calls of \<^verbatim>\<open>output()\<close>.\<close>

fun poll :: "nat \<Rightarrow> actor \<Rightarrow> token option list \<times> actor" where
  "poll 0 a = ([], a)"
| "poll (Suc n) a =
     (let (t, a1) = LoadDataset_output a; (ts, a2) = poll n a1 in (t # ts, a2))"

section \<open>MathExpression\<close>

definition MathExpression_do_execute :: "env \<Rightarrow> actor \<Rightarrow> outcome \<times> actor" where
  "MathExpression_do_execute e a =
     (case input_payload a of
        Inl ex \<Rightarrow> (Raised ex, a)
      | Inr v \<Rightarrow>
         (case py_eval e (replace (expression (options a)) ''{X}'' (py_str e v)) of
            Inl ex \<Rightarrow> (Raised ex, a)
          | Inr r \<Rightarrow> (Returned None, a\<lparr>p_output := p_output a @ [Some (Token r)]\<rparr>)))"

section \<open>Calls into the Weka engine\<close>

text \<open>
  Modelled from the spec: the dataset capability (\<^verbatim>\<open>weka.core.dataset\<close> is not part of
  the sources). \<^verbatim>\<open>template_instances\<close> keeps the schema and drops the rows;
  \<^verbatim>\<open>equal_headers\<close> is the schema comparison, which the caller's test
  \<^verbatim>\<open>is not None\<close> reads as: \<^verbatim>\<open>None\<close> when the schemas are equal, a message
  otherwise.
\<close>

definition template_instances :: "instances \<Rightarrow> instances" where
  "template_instances d = d\<lparr>rows := []\<rparr>"

definition equal_headers :: "instances \<Rightarrow> instances \<Rightarrow> string option" where
  "equal_headers hdr d = (if schema hdr = schema d then None else Some ''Headers differ'')"

text \<open>\<^verbatim>\<open>data.jobject\<close>, read by every wrapper method that takes a dataset.\<close>

definition as_instances :: "pyval \<Rightarrow> exn + instances" where
  "as_instances v = (case v of PInstances d \<Rightarrow> Inr d | _ \<Rightarrow> Inl (AttributeError ''jobject''))"

text \<open>
  Modelled from the spec: the model capability \<^verbatim>\<open>copy() -> Model\<close>
  (\<^verbatim>\<open>make_copy\<close> of the wrapper classes is not defined in the sources). The copy is a new
  object with the state of the original.
\<close>

definition make_copy :: "jvm \<Rightarrow> addr \<Rightarrow> addr \<times> jvm" where
  "make_copy h t =
     (next_free h, h\<lparr>objs := (objs h)(next_free h := objs h t), next_free := Suc (next_free h)\<rparr>)"

text \<open>
  \<^verbatim>\<open>Classifier.build_classifier\<close> calls \<^verbatim>\<open>buildClassifier\<close> on the Java object;
  \<^verbatim>\<open>build_clusterer\<close> and \<^verbatim>\<open>build_associations\<close> do the same for their classes.
  The call changes the state of that object only.
\<close>

definition build_classifier :: "jvm \<Rightarrow> addr \<Rightarrow> instances \<Rightarrow> jvm" where
  "build_classifier h c d = h\<lparr>objs := (objs h)(c := (objs h c)\<lparr>built_on := Some d\<rparr>)\<rparr>"

text \<open>
  Modelled from the spec: the filter capability (\<^verbatim>\<open>weka.filters\<close> is not part of the
  sources). \<^verbatim>\<open>inputformat\<close> fits the filter to the format of the dataset;
  \<^verbatim>\<open>filter\<close> pushes a batch through it and returns the filtered dataset.
\<close>

definition inputformat :: "jvm \<Rightarrow> addr \<Rightarrow> instances \<Rightarrow> jvm" where
  "inputformat h f d =
     h\<lparr>objs := (objs h)(f := (objs h f)\<lparr>built_on := Some (template_instances d)\<rparr>),
       inputformat_calls := Suc (inputformat_calls h)\<rparr>"

definition filter_call :: "env \<Rightarrow> jvm \<Rightarrow> addr \<Rightarrow> instances \<Rightarrow> instances \<times> jvm" where
  "filter_call e h f d =
     (filter_result e (objs h f) d,
      h\<lparr>objs := (objs h)(f := (objs h f)\<lparr>batches := Suc (batches (objs h f))\<rparr>)\<rparr>)"

text \<open>\<^verbatim>\<open>Evaluation.__init__\<close>: a new evaluation object for the dataset.\<close>

definition Evaluation_init :: "jvm \<Rightarrow> pyval \<Rightarrow> exn + addr \<times> jvm" where
  "Evaluation_init h data =
     (case as_instances data of
        Inl ex \<Rightarrow> Inl ex
      | Inr d \<Rightarrow>
         Inr (next_free h,
              h\<lparr>objs := (objs h)(next_free h :=
                    \<lparr>jclass = ''weka.classifiers.Evaluation'', is_classifier = False,
                     is_clusterer = False, built_on = None, batches = 0\<rparr>),
                next_free := Suc (next_free h)\<rparr>))"

text \<open>
  \<^verbatim>\<open>Evaluation.crossvalidate_model(self, classifier, data, num_folds, random)\<close> of
  \<^verbatim>\<open>classifiers.py\<close>. A Python call binds the positional arguments to the parameters
  before the body runs and raises \<^verbatim>\<open>TypeError\<close> when their number differs, so the
  method takes the list of the arguments after \<^verbatim>\<open>self\<close>. The body passes the Java objects
  of the classifier and of the dataset to \<^verbatim>\<open>crossValidateModel\<close>, which records its
  statistics in the evaluation object.
\<close>

definition Evaluation_crossvalidate_model :: "jvm \<Rightarrow> addr \<Rightarrow> pyval list \<Rightarrow> exn + jvm" where
  "Evaluation_crossvalidate_model h self args =
     (case args of
        [classifier, data, num_folds, random] \<Rightarrow>
          (case classifier of
             PWrap _ _ \<Rightarrow>
               (case as_instances data of
                  Inl ex \<Rightarrow> Inl ex
                | Inr d \<Rightarrow> Inr (h\<lparr>objs := (objs h)(self := (objs h self)\<lparr>built_on := Some d\<rparr>)\<rparr>))
           | _ \<Rightarrow> Inl (AttributeError ''jobject''))
      | _ \<Rightarrow>
          Inl (TypeError (''crossvalidate_model() takes exactly 5 arguments (''
                 @ str_int (int (length args) + 1) @ '' given)'')))"

section \<open>Train\<close>

definition Train_check_input :: "env \<Rightarrow> actor \<Rightarrow> token option \<Rightarrow> exn + unit" where
  "Train_check_input e a tok =
     (case tok of
        None \<Rightarrow> Inl (AttributeError ''payload'')
      | Some t \<Rightarrow>
         (case payload t of
            PInstances _ \<Rightarrow> Inr ()
          | v \<Rightarrow> Inl (Exception (full_name a @ '': Unhandled data type: '' @ class_name e v))))"

text \<open>
  The three branches of \<^verbatim>\<open>Train.do_execute\<close> differ in the wrapper class only: copy the
  setup, build the copy on the data.
\<close>

definition train_copy :: "wrapper \<Rightarrow> addr \<Rightarrow> pyval \<Rightarrow> jvm \<Rightarrow> exn \<times> jvm + pyval \<times> jvm" where
  "train_copy w t data h =
     (let (c, h1) = make_copy h t in
      case as_instances data of
        Inl ex \<Rightarrow> Inl (ex, h1)
      | Inr d \<Rightarrow> Inr (PWrap w c, build_classifier h1 c d))"

definition Train_do_execute :: "env \<Rightarrow> actor \<times> jvm \<Rightarrow> outcome \<times> actor \<times> jvm" where
  "Train_do_execute e s =
     (let (a, h) = s in
      case input_payload a of
        Inl ex \<Rightarrow> (Raised ex, a, h)
      | Inr data \<Rightarrow>
         (let cls = setup_opt (options a);
              trained =
                (case cls of
                   PWrap WClassifier t \<Rightarrow> Some (train_copy WClassifier t data h)
                 | PWrap WClusterer t \<Rightarrow> Some (train_copy WClusterer t data h)
                 | PWrap WAssociator t \<Rightarrow> Some (train_copy WAssociator t data h)
                 | _ \<Rightarrow> None)
          in case trained of
               None \<Rightarrow> (Returned (Some (''Unhandled class: '' @ get_classname e cls)), a, h)
             | Some (Inl (ex, h1)) \<Rightarrow> (Raised ex, a, h1)
             | Some (Inr (m, h1)) \<Rightarrow>
                 (case as_instances data of
                    Inl ex \<Rightarrow> (Raised ex, a, h1)
                  | Inr d \<Rightarrow>
                     (Returned None,
                      a\<lparr>p_output := p_output a
                           @ [Some (Token (PModelContainer m
                                 (Some (PInstances (template_instances d)))))]\<rparr>,
                      h1))))"

section \<open>Filter\<close>

definition Filter_check_input :: "env \<Rightarrow> actor \<Rightarrow> token option \<Rightarrow> exn + unit" where
  "Filter_check_input e a tok =
     (case tok of
        None \<Rightarrow> Inl (Exception (full_name a @ '': No token provided!''))
      | Some t \<Rightarrow>
         (case payload t of
            PInstances _ \<Rightarrow> Inr ()
          | v \<Rightarrow> Inl (Exception (full_name a @ '': Unhandled class: '' @ get_classname e v))))"

text \<open>
  The test \<^verbatim>\<open>(self._filter is None) or self._header.equal_headers(data) is not None\<close>.
\<close>

definition Filter_stale :: "actor \<Rightarrow> instances \<Rightarrow> exn + bool" where
  "Filter_stale a d =
     (case p_filter a of
        None \<Rightarrow> Inr True
      | Some _ \<Rightarrow>
         (case p_header a of
            None \<Rightarrow> Inl (AttributeError ''equal_headers'')
          | Some hdr \<Rightarrow> Inr (equal_headers hdr d \<noteq> None)))"

text \<open>The body of the \<^verbatim>\<open>if\<close>: cache the header, copy the configured filter, fit the copy.\<close>

definition Filter_refit :: "actor \<times> jvm \<Rightarrow> instances \<Rightarrow> exn \<times> actor \<times> jvm + actor \<times> jvm" where
  "Filter_refit s d =
     (let (a, h) = s;
          a1 = a\<lparr>p_header := Some (template_instances d)\<rparr>
      in case filter_opt (options a) of
           PWrap _ t \<Rightarrow>
             (let (c, h1) = make_copy h t in Inr (a1\<lparr>p_filter := Some c\<rparr>, inputformat h1 c d))
         | _ \<Rightarrow> Inl (AttributeError ''jobject'', a1, h))"

definition Filter_do_execute :: "env \<Rightarrow> actor \<times> jvm \<Rightarrow> outcome \<times> actor \<times> jvm" where
  "Filter_do_execute e s =
     (let (a, h) = s in
      case input_payload a of
        Inl ex \<Rightarrow> (Raised ex, a, h)
      | Inr data \<Rightarrow>
         (case as_instances data of
            Inl ex \<Rightarrow> (Raised ex, a, h)
          | Inr d \<Rightarrow>
             (case Filter_stale a d of
                Inl ex \<Rightarrow> (Raised ex, a, h)
              | Inr stale \<Rightarrow>
                 (case (if stale then Filter_refit (a, h) d else Inr (a, h)) of
                    Inl (ex, a1, h1) \<Rightarrow> (Raised ex, a1, h1)
                  | Inr (a1, h1) \<Rightarrow>
                     (case p_filter a1 of
                        None \<Rightarrow> (Raised (AttributeError ''filter''), a1, h1)
                      | Some f \<Rightarrow>
                         (let (filtered, h2) = filter_call e h1 f d in
                          (Returned None,
                           a1\<lparr>p_output := p_output a1 @ [Some (Token (PInstances filtered))]\<rparr>,
                           h2)))))))"

section \<open>CrossValidate\<close>

text \<open>
  In the classifier branch the assignment to \<^verbatim>\<open>evl.discard_predictions\<close> sets an
  attribute of the Python object and calls nothing. The call of
  \<^verbatim>\<open>evl.crossvalidate_model\<close> passes five arguments: the copy, the data, the folds, the
  random generator and the \<^verbatim>\<open>"output"\<close> option.

  Modelled from the spec: for a clusterer the cross-validation gives a log-likelihood value
  (\<^verbatim>\<open>weka.clusterers\<close> is not part of the sources); \<open>cluster_llh\<close> is that value.
\<close>

definition CrossValidate_do_execute :: "env \<Rightarrow> actor \<times> jvm \<Rightarrow> outcome \<times> actor \<times> jvm" where
  "CrossValidate_do_execute e s =
     (let (a, h) = s in
      case input_payload a of
        Inl ex \<Rightarrow> (Raised ex, a, h)
      | Inr data \<Rightarrow>
         (let cls = setup_opt (options a) in
          case cls of
            PWrap WClassifier t \<Rightarrow>
              (let (c, h1) = make_copy h t in
               case Evaluation_init h1 data of
                 Inl ex \<Rightarrow> (Raised ex, a, h1)
               | Inr (evl, h2) \<Rightarrow>
                  (case Evaluation_crossvalidate_model h2 evl
                          [PWrap WClassifier c, data, PInt (folds (options a)),
                           PRandom (seed (options a)), output_opt (options a)] of
                     Inl ex \<Rightarrow> (Raised ex, a, h2)
                   | Inr h3 \<Rightarrow>
                      (Returned None,
                       a\<lparr>p_output := p_output a @ [Some (Token (PWrap WEvaluation evl))]\<rparr>,
                       h3)))
          | PWrap WClusterer t \<Rightarrow>
              (let (c, h1) = make_copy h t in
               case as_instances data of
                 Inl ex \<Rightarrow> (Raised ex, a, h1)
               | Inr d \<Rightarrow>
                  (let llh = cluster_llh e (objs h1 c) d (folds (options a)) (seed (options a)) in
                   (Returned None,
                    a\<lparr>p_output := p_output a @ [Some (Token (PFloat llh))]\<rparr>,
                    h1)))
          | _ \<Rightarrow> (Returned (Some (''Unhandled class: '' @ get_classname e cls)), a, h)))"

section \<open>ModelReader\<close>

text \<open>
  \<^verbatim>\<open>javabridge.is_instance_of\<close> for the two classes the reader asks about, and the class
  name of a deserialised object.
\<close>

definition is_instance_of_Classifier :: "jvm \<Rightarrow> jobject \<Rightarrow> bool" where
  "is_instance_of_Classifier h x = (case x of JRef r \<Rightarrow> is_classifier (objs h r) | _ \<Rightarrow> False)"

definition is_instance_of_Clusterer :: "jvm \<Rightarrow> jobject \<Rightarrow> bool" where
  "is_instance_of_Clusterer h x = (case x of JRef r \<Rightarrow> is_clusterer (objs h r) | _ \<Rightarrow> False)"

definition jobject_classname :: "jvm \<Rightarrow> jobject \<Rightarrow> string" where
  "jobject_classname h x =
     (case x of JRef r \<Rightarrow> jclass (objs h r) | JInstances _ \<Rightarrow> ''weka.core.Instances'')"

text \<open>The wrappers \<^verbatim>\<open>Classifier(jobject=x)\<close> and \<^verbatim>\<open>Clusterer(jobject=x)\<close>.\<close>

definition wrap_jobject :: "wrapper \<Rightarrow> jobject \<Rightarrow> exn + pyval" where
  "wrap_jobject w x =
     (case x of JRef r \<Rightarrow> Inr (PWrap w r) | _ \<Rightarrow> Inl (Exception ''Object does not implement the class''))"

text \<open>
  Modelled from the spec: \<^verbatim>\<open>Instances(x)\<close> wraps a deserialised schema
  (\<^verbatim>\<open>weka.core.dataset\<close> is not part of the sources); like
  \<^verbatim>\<open>Classifier.__init__\<close> it is taken to refuse an object of another class.
\<close>

definition wrap_instances :: "jobject \<Rightarrow> exn + pyval" where
  "wrap_instances x =
     (case x of
        JInstances d \<Rightarrow> Inr (PInstances d)
      | _ \<Rightarrow> Inl (Exception ''Object does not implement the class''))"

text \<open>The model of a container read from a file: the first wrapper class that applies.\<close>

definition read_model :: "jvm \<Rightarrow> jobject \<Rightarrow> (exn + pyval) option" where
  "read_model h x =
     (if is_instance_of_Classifier h x then Some (wrap_jobject WClassifier x)
      else if is_instance_of_Clusterer h x then Some (wrap_jobject WClusterer x)
      else None)"

text \<open>String concatenation with a payload: \<^verbatim>\<open>"..." + fname\<close> needs a string.\<close>

definition concat_str :: "string \<Rightarrow> pyval \<Rightarrow> exn + string" where
  "concat_str s v =
     (case v of PStr f \<Rightarrow> Inr (s @ f) | _ \<Rightarrow> Inl (TypeError ''cannot concatenate''))"

definition count_mismatch :: "nat \<Rightarrow> string" where
  "count_mismatch n =
     ''Expected 1 or 2 objects, but got '' @ str_int (int n) @ '' instead reading: ''"

definition ModelReader_do_execute :: "env \<Rightarrow> actor \<times> jvm \<Rightarrow> outcome \<times> actor \<times> jvm" where
  "ModelReader_do_execute e s =
     (let (a, h) = s in
      case input_payload a of
        Inl ex \<Rightarrow> (Raised ex, a, h)
      | Inr fname \<Rightarrow>
         (case read_all e fname of
            Inl ex \<Rightarrow> (Raised ex, a, h)
          | Inr data \<Rightarrow>
             (let cont =
                (case data of
                   [x] \<Rightarrow>
                     (case read_model h x of
                        None \<Rightarrow> Inl (Returned (Some (''Unhandled class: '' @ jobject_classname h x)))
                      | Some (Inl ex) \<Rightarrow> Inl (Raised ex)
                      | Some (Inr m) \<Rightarrow> Inr (PModelContainer m None))
                 | [x, y] \<Rightarrow>
                     (case read_model h x of
                        None \<Rightarrow> Inl (Returned (Some (''Unhandled class: '' @ jobject_classname h x)))
                      | Some (Inl ex) \<Rightarrow> Inl (Raised ex)
                      | Some (Inr m) \<Rightarrow>
                         (case wrap_instances y of
                            Inl ex \<Rightarrow> Inl (Raised ex)
                          | Inr hdr \<Rightarrow> Inr (PModelContainer m (Some hdr))))
                 | _ \<Rightarrow>
                     (case concat_str (count_mismatch (length data)) fname of
                        Inl ex \<Rightarrow> Inl (Raised ex)
                      | Inr msg \<Rightarrow> Inl (Returned (Some msg))))
              in case cont of
                   Inl out \<Rightarrow> (out, a, h)
                 | Inr c \<Rightarrow>
                    (Returned None, a\<lparr>p_output := p_output a @ [Some (Token c)]\<rparr>, h))))"

section \<open>The transformer contract\<close>

definition PassThrough_do_execute :: "actor \<Rightarrow> outcome \<times> actor" where
  "PassThrough_do_execute a = (Returned None, a\<lparr>p_output := p_output a @ [p_input a]\<rparr>)"

text \<open>
  Method dispatch on the class of the actor. Three classes override
  \<^verbatim>\<open>check_input\<close>.

  Modelled from the spec: the \<^verbatim>\<open>check_input\<close> the other classes inherit
  (\<^verbatim>\<open>weka.flow.base\<close> is not part of the sources) accepts any payload.
\<close>

definition overrides_check_input :: "actor_class \<Rightarrow> bool" where
  "overrides_check_input c = (c = LoadDataset \<or> c = Train \<or> c = Filter)"

definition check_input :: "env \<Rightarrow> actor_class \<Rightarrow> actor \<Rightarrow> token option \<Rightarrow> exn + unit" where
  "check_input e c a tok =
     (case c of
        LoadDataset \<Rightarrow> LoadDataset_check_input e a tok
      | Train \<Rightarrow> Train_check_input e a tok
      | Filter \<Rightarrow> Filter_check_input e a tok
      | _ \<Rightarrow> Inr ())"

text \<open>The payload type a class accepts, as its \<^verbatim>\<open>isinstance\<close> test reads it.\<close>

definition accepted :: "actor_class \<Rightarrow> pyval \<Rightarrow> bool" where
  "accepted c v =
     (case c of
        LoadDataset \<Rightarrow> (case v of PStr _ \<Rightarrow> True | _ \<Rightarrow> False)
      | Train \<Rightarrow> (case v of PInstances _ \<Rightarrow> True | _ \<Rightarrow> False)
      | Filter \<Rightarrow> (case v of PInstances _ \<Rightarrow> True | _ \<Rightarrow> False)
      | _ \<Rightarrow> True)"

definition on_actor :: "(actor \<Rightarrow> outcome \<times> actor) \<Rightarrow> actor \<times> jvm \<Rightarrow> outcome \<times> actor \<times> jvm" where
  "on_actor f s = (let (a, h) = s; (r, a1) = f a in (r, a1, h))"

definition do_execute :: "env \<Rightarrow> actor_class \<Rightarrow> actor \<times> jvm \<Rightarrow> outcome \<times> actor \<times> jvm" where
  "do_execute e c s =
     (case c of
        PassThrough \<Rightarrow> on_actor PassThrough_do_execute s
      | LoadDataset \<Rightarrow> on_actor (LoadDataset_do_execute e) s
      | SetStorageValue \<Rightarrow> on_actor SetStorageValue_do_execute s
      | DeleteStorageValue \<Rightarrow> on_actor DeleteStorageValue_do_execute s
      | InitStorageValue \<Rightarrow> on_actor (InitStorageValue_do_execute e) s
      | UpdateStorageValue \<Rightarrow> on_actor (UpdateStorageValue_do_execute e) s
      | MathExpression \<Rightarrow> on_actor (MathExpression_do_execute e) s
      | Train \<Rightarrow> Train_do_execute e s
      | Filter \<Rightarrow> Filter_do_execute e s
      | CrossValidate \<Rightarrow> CrossValidate_do_execute e s
      | ModelReader \<Rightarrow> ModelReader_do_execute e s)"

text \<open>
  Modelled from the spec: one lifecycle step of an actor on a token (section 4.4; the code of
  the lifecycle is in \<^verbatim>\<open>weka.flow.base\<close>, which is not part of the sources).
  \<^verbatim>\<open>check_input\<close> runs before every \<^verbatim>\<open>do_execute\<close>; an exception it raises
  ends the step.
\<close>

definition step :: "env \<Rightarrow> actor_class \<Rightarrow> token option \<Rightarrow> actor \<times> jvm \<Rightarrow> outcome \<times> actor \<times> jvm" where
  "step e c tok s =
     (let (a, h) = s in
      case check_input e c a tok of
        Inl ex \<Rightarrow> (Raised ex, a, h)
      | Inr _ \<Rightarrow> do_execute e c (a\<lparr>p_input := tok\<rparr>, h))"

section \<open>Running an actor\<close>

text \<open>
  Any number of executions: each token in turn becomes the input and \<^verbatim>\<open>do_execute\<close>
  runs, whatever the outcome of the execution before.
\<close>

fun executions :: "env \<Rightarrow> actor_class \<Rightarrow> token option list \<Rightarrow> actor \<times> jvm \<Rightarrow> actor \<times> jvm" where
  "executions e c [] s = s"
| "executions e c (tok # toks) s =
     executions e c toks (snd (do_execute e c ((fst s)\<lparr>p_input := tok\<rparr>, snd s)))"

text \<open>The configured template of the classes that copy one.\<close>

definition template :: "actor_class \<Rightarrow> actor \<Rightarrow> pyval" where
  "template c a = (if c = Filter then filter_opt (options a) else setup_opt (options a))"

definition dataset_token :: "instances \<Rightarrow> token option" where
  "dataset_token d = Some (Token (PInstances d))"

text \<open>
  The template at address \<open>t\<close> is an allocated object and is not the copy the Filter
  actor has cached; \<open>kept\<close> says that a run has left it, and the options, untouched.
\<close>

definition template_inv :: "addr \<Rightarrow> actor \<times> jvm \<Rightarrow> bool" where
  "template_inv t s = (t < next_free (snd s) \<and> p_filter (fst s) \<noteq> Some t)"

definition kept :: "addr \<Rightarrow> actor \<times> jvm \<Rightarrow> actor \<times> jvm \<Rightarrow> bool" where
  "kept t s s' =
     (template_inv t s' \<and> objs (snd s') t = objs (snd s) t \<and> options (fst s') = options (fst s))"

section \<open>Numbers of the host language\<close>

text \<open>
  The comparison \<^verbatim>\<open>==\<close> on numbers: an integer and a float are equal when they denote
  the same number.
\<close>

definition py_num_eq :: "pyval \<Rightarrow> pyval \<Rightarrow> bool" where
  "py_num_eq u v =
     (case (u, v) of
        (PInt i, PInt j) \<Rightarrow> i = j
      | (PInt i, PFloat y) \<Rightarrow> of_int i = y
      | (PFloat x, PInt j) \<Rightarrow> x = of_int j
      | (PFloat x, PFloat y) \<Rightarrow> x = y
      | _ \<Rightarrow> False)"

text \<open>
  A fragment of the expressions \<^verbatim>\<open>eval\<close> accepts: decimal integer literals without a
  leading zero, joined by \<^verbatim>\<open>+\<close>, with spaces allowed around the operator only. On this
  fragment \<^verbatim>\<open>eval\<close> gives the integer sum.
\<close>

definition is_digit :: "char \<Rightarrow> bool" where
  "is_digit c = (c \<in> set ''0123456789'')"

definition digit_value :: "char \<Rightarrow> nat" where
  "digit_value c = of_char c - 48"

definition literal_value :: "string \<Rightarrow> nat option" where
  "literal_value s =
     (if s \<noteq> [] \<and> list_all is_digit s \<and> (hd s \<noteq> CHR ''0'' \<or> length s = 1)
      then Some (foldl (\<lambda>n c. 10 * n + digit_value c) 0 s) else None)"

definition strip_spaces :: "string \<Rightarrow> string" where
  "strip_spaces s =
     rev (dropWhile (\<lambda>c. c = CHR '' '') (rev (dropWhile (\<lambda>c. c = CHR '' '') s)))"

fun split_on :: "char \<Rightarrow> string \<Rightarrow> string list" where
  "split_on c [] = [[]]"
| "split_on c (x # xs) =
     (if x = c then [] # split_on c xs
      else (case split_on c xs of [] \<Rightarrow> [[x]] | y # ys \<Rightarrow> (x # y) # ys))"

definition sum_of_literals :: "string \<Rightarrow> int option" where
  "sum_of_literals s =
     (if s = [] \<or> hd s = CHR '' '' \<or> last s = CHR '' '' then None
      else map_option (\<lambda>ns. int (sum_list ns))
             (those (map (\<lambda>t. literal_value (strip_spaces t)) (split_on (CHR ''+'') s))))"

definition evaluates_sums :: "env \<Rightarrow> bool" where
  "evaluates_sums e = (\<forall>s i. sum_of_literals s = Some i \<longrightarrow> py_eval e s = Inr (PInt i))"

section \<open>Example inputs\<close>

definition demo_env :: env where
  "demo_env =
     \<lparr>py_eval = (\<lambda>s. case sum_of_literals s of
                        Some i \<Rightarrow> Inr (PInt i)
                      | None \<Rightarrow> Inl (Exception ''not evaluated'')),
      str_other = (\<lambda>v. ''object''),
      get_classname = (\<lambda>v. ''builtins.object''),
      class_name = (\<lambda>v. ''object''),
      path_exists = (\<lambda>p. p = ''iris.arff''),
      path_isfile = (\<lambda>p. p = ''iris.arff''),
      loader_for_file = (\<lambda>p. Some (Loader ''weka.core.converters.ArffLoader'')),
      file_data = (\<lambda>l p. \<lparr>schema = [''a'', ''b''], rows = [[1, 2], [3, 4], [5, 6]]\<rparr>),
      read_all = (\<lambda>v. if v = PStr ''one.model'' then Inr [JRef 0]
                       else if v = PStr ''two.model''
                         then Inr [JRef 0, JInstances \<lparr>schema = [''a'', ''b''], rows = []\<rparr>]
                       else Inr [JRef 0, JRef 0, JRef 0]),
      filter_result = (\<lambda>f d. d),
      cluster_llh = (\<lambda>c d n k. 0)\<rparr>"

definition demo_options :: options where
  "demo_options =
     \<lparr>incremental = True, use_custom_loader = False,
      custom_loader = Loader ''weka.core.converters.ArffLoader'',
      storage_name = ''unknown'', value_opt = ''1'', expression = ''1 + {X}'',
      setup_opt = PWrap WClassifier 0, filter_opt = PWrap WFilter 1,
      folds = 10, seed = 1, discard_predictions = False, output_opt = PNone\<rparr>"

definition demo_actor :: actor where
  "demo_actor =
     \<lparr>full_name = ''flow.actor'', options = demo_options, p_input = None, p_output = [],
      p_loader = None, p_iterator = None, p_filter = None, p_header = None,
      storagehandler = None\<rparr>"

definition demo_jvm :: jvm where
  "demo_jvm =
     \<lparr>objs = (\<lambda>r. \<lparr>jclass = (if r = 0 then ''weka.classifiers.rules.ZeroR''
                              else ''weka.filters.AllFilter''),
                    is_classifier = (r = 0), is_clusterer = False,
                    built_on = None, batches = 0\<rparr>),
      next_free = 2, inputformat_calls = 0\<rparr>"

definition data_A :: instances where
  "data_A = \<lparr>schema = [''a'', ''b''], rows = [[1, 2], [3, 4]]\<rparr>"

definition data_B :: instances where
  "data_B = \<lparr>schema = [''a'', ''c''], rows = [[7, 8]]\<rparr>"

section \<open>Evaluating the examples\<close>

lemma str_int_1: "str_int 1 = ''1''"
  by (simp add: str_int_def digits.simps digit_char_def)

lemma str_int_3: "str_int 3 = ''3''"
  by (simp add: str_int_def digits.simps digit_char_def)

lemma str_int_4: "str_int 4 = ''4''"
  by (simp add: str_int_def digits.simps digit_char_def)

lemma str_int_6: "str_int 6 = ''6''"
  by (simp add: str_int_def digits.simps digit_char_def)

lemma replace_X_1: "replace ''1 + {X}'' ''{X}'' ''1'' = ''1 + 1''"
  by (simp add: replace_def replace_from.simps)

lemma replace_X_4: "replace ''1 + {X}'' ''{X}'' ''4'' = ''1 + 4''"
  by (simp add: replace_def replace_from.simps)

lemma sum_1_1: "sum_of_literals ''1 + 1'' = Some 2"
  by (simp add: sum_of_literals_def literal_value_def strip_spaces_def is_digit_def
        digit_value_def)

lemma sum_1_4: "sum_of_literals ''1 + 4'' = Some 5"
  by (simp add: sum_of_literals_def literal_value_def strip_spaces_def is_digit_def
        digit_value_def)

section \<open>Storage transformers without a handler, and missing keys\<close>

text \<open>
  Claim C4. When no storage handler is attached, \<^verbatim>\<open>do_execute\<close> of SetStorageValue,
  DeleteStorageValue, InitStorageValue and UpdateStorageValue returns the error string
  "No storage handler available!" and raises nothing; the actor, with its output queue and
  its (absent) storage, and the Java side are what they were before the call.
\<close>

theorem no_storage_handler:
  assumes "storagehandler a = None"
      and "c \<in> {SetStorageValue, DeleteStorageValue, InitStorageValue, UpdateStorageValue}"
  shows "do_execute e c (a, h) = (Returned (Some ''No storage handler available!''), a, h)"
  using assms
  by (auto simp: do_execute_def on_actor_def no_storage_def SetStorageValue_do_execute_def
        DeleteStorageValue_do_execute_def InitStorageValue_do_execute_def
        UpdateStorageValue_do_execute_def)

theorem no_storage_handler_witness:
  "storagehandler demo_actor = None
   \<and> UpdateStorageValue \<in> {SetStorageValue, DeleteStorageValue, InitStorageValue, UpdateStorageValue}
   \<and> do_execute demo_env UpdateStorageValue (demo_actor, demo_jvm)
       = (Returned (Some ''No storage handler available!''), demo_actor, demo_jvm)"
  using no_storage_handler [of demo_actor UpdateStorageValue demo_env demo_jvm]
  by (simp add: demo_actor_def)

text \<open>
  Claim C9. UpdateStorageValue with a storage handler attached: when the configured storage
  name is not a key of the storage, \<^verbatim>\<open>do_execute\<close> raises \<^verbatim>\<open>KeyError\<close> from the
  lookup, it returns no error string, and the actor, with its storage and its output queue,
  is unchanged. Whenever \<^verbatim>\<open>do_execute\<close> returns, it returns \<^verbatim>\<open>None\<close> and the key
  was present.
\<close>

theorem update_missing_key:
  assumes "storagehandler a = Some st"
  shows "(st (storage_name (options a)) = None \<longrightarrow>
            UpdateStorageValue_do_execute e a = (Raised (KeyError (storage_name (options a))), a))
       \<and> (\<forall>r a'. UpdateStorageValue_do_execute e a = (Returned r, a') \<longrightarrow>
            r = None \<and> st (storage_name (options a)) \<noteq> None)"
  using assms
  by (auto simp: UpdateStorageValue_do_execute_def split: option.splits sum.splits)

theorem update_missing_key_witness:
  "storagehandler (demo_actor\<lparr>storagehandler := Some Map.empty\<rparr>) = Some Map.empty
   \<and> UpdateStorageValue_do_execute demo_env (demo_actor\<lparr>storagehandler := Some Map.empty\<rparr>)
       = (Raised (KeyError ''unknown''), demo_actor\<lparr>storagehandler := Some Map.empty\<rparr>)
   \<and> fst (UpdateStorageValue_do_execute demo_env
             (demo_actor\<lparr>storagehandler := Some [''unknown'' \<mapsto> PInt 1]\<rparr>)) = Returned None
   \<and> [''unknown'' \<mapsto> PInt 1] ''unknown'' \<noteq> None"
  using update_missing_key [of "demo_actor\<lparr>storagehandler := Some Map.empty\<rparr>" Map.empty demo_env]
    update_missing_key [of "demo_actor\<lparr>storagehandler := Some [''unknown'' \<mapsto> PInt 1]\<rparr>"
       "[''unknown'' \<mapsto> PInt 1]" demo_env]
  by (simp add: demo_actor_def demo_options_def demo_env_def UpdateStorageValue_do_execute_def
        py_str_def str_int_1 replace_X_1 sum_1_1)

section \<open>LoadDataset: the exhausted iterator\<close>

text \<open>
  Claim C10. LoadDataset in incremental mode: whenever the iterator field is not
  \<^verbatim>\<open>None\<close>, \<^verbatim>\<open>has_output()\<close> is true, also when the rows are exhausted; on an
  exhausted iterator \<^verbatim>\<open>output()\<close> returns \<^verbatim>\<open>None\<close> instead of a token and clears the
  iterator field. So \<^verbatim>\<open>has_output()\<close> can be true right before an \<^verbatim>\<open>output()\<close> that
  yields no token.
\<close>

theorem exhausted_iterator:
  "(p_iterator a \<noteq> None \<longrightarrow> LoadDataset_has_output a)
   \<and> (p_iterator a = Some [] \<longrightarrow>
        LoadDataset_has_output a \<and> LoadDataset_output a = (None, a\<lparr>p_iterator := None\<rparr>))"
  by (auto simp: LoadDataset_has_output_def LoadDataset_output_def iterator_next_def)

theorem exhausted_iterator_witness:
  "p_iterator (demo_actor\<lparr>p_iterator := Some []\<rparr>) = Some []
   \<and> LoadDataset_has_output (demo_actor\<lparr>p_iterator := Some []\<rparr>)
   \<and> LoadDataset_output (demo_actor\<lparr>p_iterator := Some []\<rparr>) = (None, demo_actor)"
  using exhausted_iterator [of "demo_actor\<lparr>p_iterator := Some []\<rparr>"]
  by (simp add: demo_actor_def)

section \<open>Rejected tokens\<close>

text \<open>
  Claim C3. For a transformer that overrides \<^verbatim>\<open>check_input\<close> (LoadDataset accepts a
  string, Train and Filter accept a dataset) and a token whose payload has another type,
  \<^verbatim>\<open>check_input\<close> raises an exception whose message is the full name of the actor
  followed by the name of the payload's type. The lifecycle step ends with that exception
  before \<^verbatim>\<open>do_execute\<close> runs: the actor, with its storage and output queue, and the
  Java side are unchanged.
\<close>

theorem rejected_token:
  assumes "overrides_check_input c" and "\<not> accepted c (payload t)"
  shows "check_input e c a (Some t)
           = Inl (Exception (full_name a @
                   (if c = Train then '': Unhandled data type: '' @ class_name e (payload t)
                    else '': Unhandled class: '' @ get_classname e (payload t))))
       \<and> step e c (Some t) (a, h)
           = (Raised (Exception (full_name a @
                   (if c = Train then '': Unhandled data type: '' @ class_name e (payload t)
                    else '': Unhandled class: '' @ get_classname e (payload t)))), a, h)"
  using assms
  by (auto simp: overrides_check_input_def accepted_def check_input_def step_def
        LoadDataset_check_input_def Train_check_input_def Filter_check_input_def
        split: pyval.splits)

theorem rejected_token_witness:
  "overrides_check_input Train \<and> \<not> accepted Train (payload (Token (PInt 3)))
   \<and> check_input demo_env Train demo_actor (Some (Token (PInt 3)))
        = Inl (Exception ''flow.actor: Unhandled data type: object'')
   \<and> step demo_env Train (Some (Token (PInt 3))) (demo_actor, demo_jvm)
        = (Raised (Exception ''flow.actor: Unhandled data type: object''), demo_actor, demo_jvm)"
  using rejected_token [of Train "Token (PInt 3)" demo_env demo_actor demo_jvm]
  by (simp add: overrides_check_input_def accepted_def demo_env_def demo_actor_def)

section \<open>MathExpression on the payload 4\<close>

text \<open>
  Claim C8. MathExpression with the expression \<^verbatim>\<open>"1 + {X}"\<close> and an input token with
  payload 4 hands \<^verbatim>\<open>"1 + 4"\<close> to \<^verbatim>\<open>eval\<close> and enqueues exactly one token. For every
  host evaluator that gives the integer sum on sums of integer literals, the payload of
  that token is the integer 5, which equals the numeric value 5.0.
\<close>

theorem math_expression_example:
  assumes "evaluates_sums e"
      and "expression (options a) = ''1 + {X}''"
      and "p_input a = Some (Token (PInt 4))"
  shows "MathExpression_do_execute e a
           = (Returned None, a\<lparr>p_output := p_output a @ [Some (Token (PInt 5))]\<rparr>)
       \<and> py_num_eq (PInt 5) (PFloat 5.0)"
proof -
  have "py_eval e ''1 + 4'' = Inr (PInt 5)"
    using assms(1) sum_1_4 by (simp add: evaluates_sums_def)
  then show ?thesis
    using assms(2,3)
    by (simp add: MathExpression_do_execute_def input_payload_def py_str_def str_int_4
          replace_X_4 py_num_eq_def)
qed

theorem math_expression_example_witness:
  "evaluates_sums demo_env
   \<and> expression (options (demo_actor\<lparr>p_input := Some (Token (PInt 4))\<rparr>)) = ''1 + {X}''
   \<and> MathExpression_do_execute demo_env (demo_actor\<lparr>p_input := Some (Token (PInt 4))\<rparr>)
       = (Returned None,
          demo_actor\<lparr>p_input := Some (Token (PInt 4)), p_output := [Some (Token (PInt 5))]\<rparr>)"
proof -
  have ev: "evaluates_sums demo_env"
    by (simp add: evaluates_sums_def demo_env_def)
  have ex: "expression (options (demo_actor\<lparr>p_input := Some (Token (PInt 4))\<rparr>)) = ''1 + {X}''"
    by (simp add: demo_actor_def demo_options_def)
  have inp: "p_input (demo_actor\<lparr>p_input := Some (Token (PInt 4))\<rparr>) = Some (Token (PInt 4))"
    by simp
  show ?thesis
    using ev ex math_expression_example [OF ev ex inp]
    by (simp add: demo_actor_def)
qed

section \<open>CrossValidate\<close>

text \<open>
  With a classifier as setup the call of \<^verbatim>\<open>crossvalidate_model\<close> has one argument more
  than the method takes, so \<^verbatim>\<open>do_execute\<close> never returns on that branch: it raises and
  leaves the actor as it was.
\<close>

lemma CrossValidate_classifier_raises:
  assumes "setup_opt (options a) = PWrap WClassifier t"
  shows "\<exists>ex h'. CrossValidate_do_execute e (a, h) = (Raised ex, a, h')"
  using assms
  by (auto simp: CrossValidate_do_execute_def Evaluation_crossvalidate_model_def
        split: sum.splits prod.splits)

lemma CrossValidate_clusterer:
  assumes "setup_opt (options a) = PWrap WClusterer t"
      and "p_input a = Some (Token (PInstances d))"
  shows "CrossValidate_do_execute e (a, h)
           = (Returned None,
              a\<lparr>p_output := p_output a
                   @ [Some (Token (PFloat (cluster_llh e (objs h t) d (folds (options a))
                                             (seed (options a)))))]\<rparr>,
              snd (make_copy h t))"
  using assms
  by (simp add: CrossValidate_do_execute_def input_payload_def as_instances_def make_copy_def)

lemma CrossValidate_unhandled:
  assumes "\<forall>t. setup_opt (options a) \<noteq> PWrap WClassifier t"
      and "\<forall>t. setup_opt (options a) \<noteq> PWrap WClusterer t"
      and "p_input a = Some tok"
  shows "CrossValidate_do_execute e (a, h)
           = (Returned (Some (''Unhandled class: '' @ get_classname e (setup_opt (options a)))),
              a, h)"
proof (cases "setup_opt (options a)")
  case (PWrap w t)
  with assms(1,2) have "w \<noteq> WClassifier" and "w \<noteq> WClusterer"
    by auto
  with PWrap assms(3) show ?thesis
    by (cases w) (simp_all add: CrossValidate_do_execute_def input_payload_def)
qed (simp_all add: CrossValidate_do_execute_def input_payload_def assms(3))

text \<open>
  Claim C5, at the default setup (a classifier) and a dataset as input: the execution
  raises \<^verbatim>\<open>TypeError\<close> and enqueues no token, where the claim has it complete and
  enqueue one token with the evaluation.
\<close>

theorem crossvalidate_classifier_type_error:
  "fst (CrossValidate_do_execute demo_env (demo_actor\<lparr>p_input := dataset_token data_A\<rparr>, demo_jvm))
     = Raised (TypeError ''crossvalidate_model() takes exactly 5 arguments (6 given)'')
   \<and> p_output (fst (snd (CrossValidate_do_execute demo_env
         (demo_actor\<lparr>p_input := dataset_token data_A\<rparr>, demo_jvm)))) = []"
  by (simp add: CrossValidate_do_execute_def Evaluation_crossvalidate_model_def
        Evaluation_init_def as_instances_def make_copy_def input_payload_def dataset_token_def
        demo_actor_def demo_options_def str_int_6)

section \<open>ModelReader: one, two or another number of objects\<close>

lemma read_model_recognized:
  assumes "is_classifier (objs h m) \<or> is_clusterer (objs h m)"
  shows "read_model h (JRef m)
           = Some (Inr (PWrap (if is_classifier (objs h m) then WClassifier else WClusterer) m))"
  using assms
  by (auto simp: read_model_def is_instance_of_Classifier_def is_instance_of_Clusterer_def
        wrap_jobject_def)

text \<open>
  Claim C7. ModelReader on a file name whose file deserialises to exactly two objects, a
  classifier or clusterer and a schema, enqueues exactly one token with a container that has
  the model and the header; on exactly one such model object, a container with the model
  only; on any other number of objects \<^verbatim>\<open>do_execute\<close> returns the message
  "Expected 1 or 2 objects, but got n instead reading: file" and enqueues nothing.
\<close>

theorem model_reader_counts:
  assumes "p_input a = Some (Token (PStr f))"
      and "read_all e (PStr f) = Inr data"
  shows "(\<forall>m d. data = [JRef m, JInstances d]
              \<and> (is_classifier (objs h m) \<or> is_clusterer (objs h m)) \<longrightarrow>
            ModelReader_do_execute e (a, h)
              = (Returned None,
                 a\<lparr>p_output := p_output a
                      @ [Some (Token (PModelContainer
                           (PWrap (if is_classifier (objs h m) then WClassifier else WClusterer) m)
                           (Some (PInstances d))))]\<rparr>,
                 h))
       \<and> (\<forall>m. data = [JRef m] \<and> (is_classifier (objs h m) \<or> is_clusterer (objs h m)) \<longrightarrow>
            ModelReader_do_execute e (a, h)
              = (Returned None,
                 a\<lparr>p_output := p_output a
                      @ [Some (Token (PModelContainer
                           (PWrap (if is_classifier (objs h m) then WClassifier else WClusterer) m)
                           None))]\<rparr>,
                 h))
       \<and> (length data \<noteq> 1 \<and> length data \<noteq> 2 \<longrightarrow>
            ModelReader_do_execute e (a, h)
              = (Returned (Some (''Expected 1 or 2 objects, but got '' @ str_int (int (length data))
                                   @ '' instead reading: '' @ f)), a, h))"
proof (intro conjI allI impI)
  fix m d
  assume "data = [JRef m, JInstances d] \<and> (is_classifier (objs h m) \<or> is_clusterer (objs h m))"
  then show "ModelReader_do_execute e (a, h)
              = (Returned None,
                 a\<lparr>p_output := p_output a
                      @ [Some (Token (PModelContainer
                           (PWrap (if is_classifier (objs h m) then WClassifier else WClusterer) m)
                           (Some (PInstances d))))]\<rparr>,
                 h)"
    using assms
    by (simp add: ModelReader_do_execute_def input_payload_def read_model_recognized
          wrap_instances_def)
next
  fix m
  assume "data = [JRef m] \<and> (is_classifier (objs h m) \<or> is_clusterer (objs h m))"
  then show "ModelReader_do_execute e (a, h)
              = (Returned None,
                 a\<lparr>p_output := p_output a
                      @ [Some (Token (PModelContainer
                           (PWrap (if is_classifier (objs h m) then WClassifier else WClusterer) m)
                           None))]\<rparr>,
                 h)"
    using assms
    by (simp add: ModelReader_do_execute_def input_payload_def read_model_recognized)
next
  assume len: "length data \<noteq> 1 \<and> length data \<noteq> 2"
  show "ModelReader_do_execute e (a, h)
              = (Returned (Some (''Expected 1 or 2 objects, but got '' @ str_int (int (length data))
                                   @ '' instead reading: '' @ f)), a, h)"
    using assms len
    by (auto simp: ModelReader_do_execute_def input_payload_def concat_str_def count_mismatch_def
          split: list.splits)
qed

theorem model_reader_counts_witness:
  "ModelReader_do_execute demo_env (demo_actor\<lparr>p_input := Some (Token (PStr ''two.model''))\<rparr>, demo_jvm)
     = (Returned None,
        demo_actor\<lparr>p_input := Some (Token (PStr ''two.model'')),
          p_output := [Some (Token (PModelContainer (PWrap WClassifier 0)
                         (Some (PInstances \<lparr>schema = [''a'', ''b''], rows = []\<rparr>))))]\<rparr>,
        demo_jvm)
   \<and> ModelReader_do_execute demo_env (demo_actor\<lparr>p_input := Some (Token (PStr ''one.model''))\<rparr>, demo_jvm)
     = (Returned None,
        demo_actor\<lparr>p_input := Some (Token (PStr ''one.model'')),
          p_output := [Some (Token (PModelContainer (PWrap WClassifier 0) None))]\<rparr>,
        demo_jvm)
   \<and> ModelReader_do_execute demo_env (demo_actor\<lparr>p_input := Some (Token (PStr ''three.model''))\<rparr>, demo_jvm)
     = (Returned (Some ''Expected 1 or 2 objects, but got 3 instead reading: three.model''),
        demo_actor\<lparr>p_input := Some (Token (PStr ''three.model''))\<rparr>, demo_jvm)"
proof -
  have two: "read_all demo_env (PStr ''two.model'')
               = Inr [JRef 0, JInstances \<lparr>schema = [''a'', ''b''], rows = []\<rparr>]"
    by (simp add: demo_env_def)
  have one: "read_all demo_env (PStr ''one.model'') = Inr [JRef 0]"
    by (simp add: demo_env_def)
  have three: "read_all demo_env (PStr ''three.model'') = Inr [JRef 0, JRef 0, JRef 0]"
    by (simp add: demo_env_def)
  have cls: "is_classifier (objs demo_jvm 0)"
    by (simp add: demo_jvm_def)
  show ?thesis
    using model_reader_counts [OF _ two, of "demo_actor\<lparr>p_input := Some (Token (PStr ''two.model''))\<rparr>" demo_jvm]
      model_reader_counts [OF _ one, of "demo_actor\<lparr>p_input := Some (Token (PStr ''one.model''))\<rparr>" demo_jvm]
      model_reader_counts [OF _ three, of "demo_actor\<lparr>p_input := Some (Token (PStr ''three.model''))\<rparr>" demo_jvm]
      cls
    by (simp add: demo_actor_def str_int_3)
qed

section \<open>LoadDataset: three rows, incrementally\<close>

lemma poll_drained:
  assumes "p_iterator a = None" and "p_output a = []"
  shows "poll n a = (replicate n None, a)"
  using assms
  by (induction n) (simp_all add: LoadDataset_output_def OutputProducer_output_def)

lemma LoadDataset_incremental:
  assumes "p_input a = Some (Token (PStr f))"
      and "path_exists e f" and "path_isfile e f"
      and "incremental (options a)"
      and "(if use_custom_loader (options a) then Some (custom_loader (options a))
            else loader_for_file e f) = Some l"
  shows "LoadDataset_do_execute e a
           = (Returned None, a\<lparr>p_loader := Some l, p_iterator := Some (rows (file_data e l f))\<rparr>)"
  using assms
  by (simp add: LoadDataset_do_execute_def input_payload_def py_str_def loader_iter_def Let_def)

lemma output_next:
  assumes "p_iterator a = Some (r # rs)"
  shows "LoadDataset_output a = (Some (Token (PInstance r)), a\<lparr>p_iterator := Some rs\<rparr>)"
  using assms by (simp add: LoadDataset_output_def iterator_next_def)

lemma output_exhausted:
  assumes "p_iterator a = Some []"
  shows "LoadDataset_output a = (None, a\<lparr>p_iterator := None\<rparr>)"
  using assms by (simp add: LoadDataset_output_def iterator_next_def)

lemma poll_add: "poll (m + n) a = (fst (poll m a) @ fst (poll n (snd (poll m a))), snd (poll n (snd (poll m a))))"
  by (induction m arbitrary: a) (simp_all add: split_beta Let_def)

lemma poll_three_rows:
  assumes "p_iterator a = Some [r1, r2, r3]"
  shows "poll 3 a = ([Some (Token (PInstance r1)), Some (Token (PInstance r2)),
                      Some (Token (PInstance r3))], a\<lparr>p_iterator := Some []\<rparr>)"
  using assms by (simp add: numeral_3_eq_3 output_next)

text \<open>
  Claim C6, as amended. LoadDataset in incremental mode over a source of three rows yields
  exactly three tokens, one row each, in the order of the source: every further call of
  \<^verbatim>\<open>output()\<close> returns \<^verbatim>\<open>None\<close>. Right after the third token
  \<^verbatim>\<open>has_output()\<close> is still true; it is false from the fourth call of
  \<^verbatim>\<open>output()\<close> on, the call that finds the iterator exhausted.
\<close>

theorem incremental_three_rows:
  assumes "p_input a = Some (Token (PStr f))"
      and "path_exists e f" and "path_isfile e f"
      and "incremental (options a)"
      and "(if use_custom_loader (options a) then Some (custom_loader (options a))
            else loader_for_file e f) = Some l"
      and "rows (file_data e l f) = [r1, r2, r3]"
      and "p_output a = []"
  shows "\<exists>a1. LoadDataset_do_execute e a = (Returned None, a1)
           \<and> (\<forall>n. fst (poll (3 + n) a1)
                  = [Some (Token (PInstance r1)), Some (Token (PInstance r2)),
                     Some (Token (PInstance r3))] @ replicate n None)
           \<and> LoadDataset_has_output (snd (poll 3 a1))
           \<and> (\<forall>n. \<not> LoadDataset_has_output (snd (poll (4 + n) a1)))"
proof -
  define a1 where "a1 = a\<lparr>p_loader := Some l, p_iterator := Some [r1, r2, r3]\<rparr>"
  define a3 where "a3 = a1\<lparr>p_iterator := Some []\<rparr>"
  define a4 where "a4 = a1\<lparr>p_iterator := None\<rparr>"
  have run: "LoadDataset_do_execute e a = (Returned None, a1)"
    using LoadDataset_incremental [OF assms(1-5)] assms(6) by (simp add: a1_def)
  have p3: "poll 3 a1 = ([Some (Token (PInstance r1)), Some (Token (PInstance r2)),
                          Some (Token (PInstance r3))], a3)"
    unfolding a3_def by (rule poll_three_rows) (simp add: a1_def)
  have o4: "LoadDataset_output a3 = (None, a4)"
    using output_exhausted [of a3] by (simp add: a3_def a4_def)
  have drained: "poll n a4 = (replicate n None, a4)" for n
    by (rule poll_drained) (simp_all add: a4_def a1_def assms(7))
  have from3: "poll n a3 = (replicate n None, if n = 0 then a3 else a4)" for n
    by (cases n) (simp_all add: o4 drained)
  have all: "poll (3 + n) a1 = ([Some (Token (PInstance r1)), Some (Token (PInstance r2)),
                Some (Token (PInstance r3))] @ replicate n None, if n = 0 then a3 else a4)" for n
    by (simp only: poll_add [of 3 n a1] p3 from3 fst_conv snd_conv)
  have h3: "LoadDataset_has_output a3"
    by (simp add: LoadDataset_has_output_def a3_def)
  have h4: "\<not> LoadDataset_has_output a4"
    by (simp add: LoadDataset_has_output_def OutputProducer_has_output_def a4_def a1_def assms(7))
  have four: "snd (poll (4 + n) a1) = a4" for n
    using all [of "Suc n"] by (simp add: numeral_Bit0 numeral_Bit1 del: poll.simps)
  show ?thesis
    using run all p3 h3 h4 four by (intro exI [of _ a1]) simp
qed

lemma loaded_eq:
  "snd (LoadDataset_do_execute demo_env (demo_actor\<lparr>p_input := Some (Token (PStr ''iris.arff''))\<rparr>))
     = demo_actor\<lparr>p_input := Some (Token (PStr ''iris.arff'')),
         p_loader := Some (Loader ''weka.core.converters.ArffLoader''),
         p_iterator := Some [[1, 2], [3, 4], [5, 6]]\<rparr>"
  by (simp add: LoadDataset_do_execute_def input_payload_def py_str_def loader_iter_def Let_def
        demo_env_def demo_actor_def demo_options_def)

text \<open>
  Claim C6 as stated fails on \<^verbatim>\<open>has_output()\<close>: after the three tokens of a
  three-row file have been retrieved it still reports output.
\<close>

theorem has_output_after_third_token:
  "fst (poll 3 (snd (LoadDataset_do_execute demo_env
          (demo_actor\<lparr>p_input := Some (Token (PStr ''iris.arff''))\<rparr>))))
     = [Some (Token (PInstance [1, 2])), Some (Token (PInstance [3, 4])),
        Some (Token (PInstance [5, 6]))]
   \<and> LoadDataset_has_output (snd (poll 3 (snd (LoadDataset_do_execute demo_env
          (demo_actor\<lparr>p_input := Some (Token (PStr ''iris.arff''))\<rparr>))))) = True"
  unfolding loaded_eq
  by (simp add: poll_three_rows LoadDataset_has_output_def)

theorem incremental_three_rows_witness:
  "\<exists>a1. LoadDataset_do_execute demo_env (demo_actor\<lparr>p_input := Some (Token (PStr ''iris.arff''))\<rparr>)
            = (Returned None, a1)
         \<and> (\<forall>n. fst (poll (3 + n) a1)
                = [Some (Token (PInstance [1, 2])), Some (Token (PInstance [3, 4])),
                   Some (Token (PInstance [5, 6]))] @ replicate n None)
         \<and> LoadDataset_has_output (snd (poll 3 a1))
         \<and> (\<forall>n. \<not> LoadDataset_has_output (snd (poll (4 + n) a1)))"
  by (rule incremental_three_rows [where f = "''iris.arff''"
        and l = "Loader ''weka.core.converters.ArffLoader''"])
     (simp_all add: demo_env_def demo_actor_def demo_options_def)

section \<open>Filter: when the filter is fitted again\<close>

lemma Filter_refit_step:
  assumes "filter_opt (options a) = PWrap w t"
      and "p_input a = Some (Token (PInstances d))"
      and "Filter_stale a d = Inr True"
  shows "Filter_do_execute e (a, h)
           = (Returned None,
              a\<lparr>p_header := Some (template_instances d), p_filter := Some (next_free h),
                p_output := p_output a @ [Some (Token (PInstances
                   (filter_result e ((objs h t)\<lparr>built_on := Some (template_instances d)\<rparr>) d)))]\<rparr>,
              \<lparr>objs = (objs h)(next_free h :=
                        (objs h t)\<lparr>built_on := Some (template_instances d),
                                   batches := Suc (batches (objs h t))\<rparr>),
               next_free = Suc (next_free h),
               inputformat_calls = Suc (inputformat_calls h)\<rparr>)"
  using assms
  by (simp add: Filter_do_execute_def input_payload_def as_instances_def Filter_refit_def
        make_copy_def inputformat_def filter_call_def)

lemma Filter_reuse_step:
  assumes "p_input a = Some (Token (PInstances d))"
      and "Filter_stale a d = Inr False"
      and "p_filter a = Some f"
  shows "Filter_do_execute e (a, h)
           = (Returned None,
              a\<lparr>p_output := p_output a @ [Some (Token (PInstances (filter_result e (objs h f) d)))]\<rparr>,
              h\<lparr>objs := (objs h)(f := (objs h f)\<lparr>batches := Suc (batches (objs h f))\<rparr>)\<rparr>)"
  using assms
  by (simp add: Filter_do_execute_def input_payload_def as_instances_def filter_call_def)

lemma Filter_stale_cases:
  "Filter_stale a d =
     (case p_filter a of None \<Rightarrow> Inr True
      | Some f \<Rightarrow> (case p_header a of None \<Rightarrow> Inl (AttributeError ''equal_headers'')
                   | Some hdr \<Rightarrow> Inr (schema hdr \<noteq> schema d)))"
  by (simp add: Filter_stale_def equal_headers_def split: option.splits)

lemma executions_Filter_cached:
  assumes "filter_opt (options a) = PWrap w t"
      and "p_filter a = Some f" and "p_header a = Some hdr"
  shows "Suc (inputformat_calls (snd (executions e Filter (map dataset_token ds) (a, h))))
           = inputformat_calls h + length (remdups_adj (schema hdr # map schema ds))"
  using assms
proof (induction ds arbitrary: a h f hdr)
  case Nil
  then show ?case by simp
next
  case (Cons d ds)
  let ?a = "a\<lparr>p_input := dataset_token d\<rparr>"
  show ?case
  proof (cases "schema hdr = schema d")
    case True
    have st: "Filter_stale ?a d = Inr False"
      using Cons.prems True by (simp add: Filter_stale_cases)
    have step: "Filter_do_execute e (?a, h)
                  = (Returned None,
                     ?a\<lparr>p_output := p_output ?a @ [Some (Token (PInstances (filter_result e (objs h f) d)))]\<rparr>,
                     h\<lparr>objs := (objs h)(f := (objs h f)\<lparr>batches := Suc (batches (objs h f))\<rparr>)\<rparr>)"
      by (rule Filter_reuse_step [OF _ st]) (simp_all add: dataset_token_def Cons.prems)
    show ?thesis
      using Cons.IH [of "?a\<lparr>p_output := p_output ?a @ [Some (Token (PInstances (filter_result e (objs h f) d)))]\<rparr>"
                 f hdr "h\<lparr>objs := (objs h)(f := (objs h f)\<lparr>batches := Suc (batches (objs h f))\<rparr>)\<rparr>"]
        Cons.prems True
      by (simp add: do_execute_def step)
  next
    case False
    have st: "Filter_stale ?a d = Inr True"
      using Cons.prems False by (simp add: Filter_stale_cases)
    have opt: "filter_opt (options ?a) = PWrap w t"
      using Cons.prems by simp
    have inp: "p_input ?a = Some (Token (PInstances d))"
      by (simp add: dataset_token_def)
    note step = Filter_refit_step [OF opt inp st, of e h]
    show ?thesis
      using False Cons.prems
      by (simp add: do_execute_def step
           Cons.IH [where f = "next_free h" and hdr = "template_instances d"]
           template_instances_def)
  qed
qed

lemma executions_Filter_new:
  assumes "filter_opt (options a) = PWrap w t" and "p_filter a = None"
  shows "inputformat_calls (snd (executions e Filter (map dataset_token ds) (a, h)))
           = inputformat_calls h + length (remdups_adj (map schema ds))"
proof (cases ds)
  case Nil
  then show ?thesis by simp
next
  case (Cons d ds')
  let ?a = "a\<lparr>p_input := dataset_token d\<rparr>"
  have st: "Filter_stale ?a d = Inr True"
    using assms by (simp add: Filter_stale_cases)
  have opt: "filter_opt (options ?a) = PWrap w t"
    using assms by simp
  have inp: "p_input ?a = Some (Token (PInstances d))"
    by (simp add: dataset_token_def)
  note step = Filter_refit_step [OF opt inp st, of e h]
  have "Suc (inputformat_calls (snd (executions e Filter (map dataset_token ds) (a, h))))
          = Suc (inputformat_calls h) + length (remdups_adj (schema (template_instances d) # map schema ds'))"
    using assms
    by (simp add: Cons do_execute_def step
          executions_Filter_cached [where f = "next_free h" and hdr = "template_instances d"])
  then show ?thesis
    by (simp add: Cons template_instances_def)
qed

text \<open>
  Claim C1. Filter on a dataset, with a configured filter object: on the first dataset and
  on a dataset whose schema differs from the cached header, \<^verbatim>\<open>do_execute\<close> fits a
  fresh copy of the configured filter exactly once (one call of \<^verbatim>\<open>inputformat\<close>, on
  a newly allocated copy) and caches the header of the dataset; on a dataset whose schema
  equals the cached header it keeps the fitted filter and the header and fits nothing. Over
  any sequence of datasets given to a new actor the number of fits is the number of runs of
  equal schemas: dataset A twice gives one fit, A then B with another schema gives two.
\<close>

theorem filter_refits:
  assumes "filter_opt (options a) = PWrap w t"
      and "p_input a = Some (Token (PInstances d))"
      and "p_filter a = None \<or> p_header a \<noteq> None"
  shows "(\<exists>a' h'. Filter_do_execute e (a, h) = (Returned None, a', h') \<and>
           (if p_filter a = None \<or> map_option schema (p_header a) \<noteq> Some (schema d)
            then inputformat_calls h' = Suc (inputformat_calls h)
               \<and> p_header a' = Some (template_instances d)
               \<and> p_filter a' = Some (next_free h)
               \<and> next_free h' = Suc (next_free h)
               \<and> objs h' (next_free h)
                   = (objs h t)\<lparr>built_on := Some (template_instances d),
                                batches := Suc (batches (objs h t))\<rparr>
            else inputformat_calls h' = inputformat_calls h
               \<and> p_header a' = p_header a
               \<and> p_filter a' = p_filter a
               \<and> next_free h' = next_free h))
       \<and> (p_filter a = None \<longrightarrow>
            (\<forall>ds. inputformat_calls (snd (executions e Filter (map dataset_token ds) (a, h)))
                    = inputformat_calls h + length (remdups_adj (map schema ds))))"
proof (intro conjI impI allI)
  show "\<exists>a' h'. Filter_do_execute e (a, h) = (Returned None, a', h') \<and>
           (if p_filter a = None \<or> map_option schema (p_header a) \<noteq> Some (schema d)
            then inputformat_calls h' = Suc (inputformat_calls h)
               \<and> p_header a' = Some (template_instances d)
               \<and> p_filter a' = Some (next_free h)
               \<and> next_free h' = Suc (next_free h)
               \<and> objs h' (next_free h)
                   = (objs h t)\<lparr>built_on := Some (template_instances d),
                                batches := Suc (batches (objs h t))\<rparr>
            else inputformat_calls h' = inputformat_calls h
               \<and> p_header a' = p_header a
               \<and> p_filter a' = p_filter a
               \<and> next_free h' = next_free h)"
  proof (cases "p_filter a = None \<or> map_option schema (p_header a) \<noteq> Some (schema d)")
    case True
    with assms(3) have st: "Filter_stale a d = Inr True"
      by (auto simp: Filter_stale_cases split: option.splits)
    show ?thesis
      using True by (simp add: Filter_refit_step [OF assms(1,2) st])
  next
    case False
    then obtain f hdr where c: "p_filter a = Some f" "p_header a = Some hdr" "schema hdr = schema d"
      by auto
    then have st: "Filter_stale a d = Inr False"
      by (simp add: Filter_stale_cases)
    show ?thesis
      using False by (simp add: Filter_reuse_step [OF assms(2) st c(1)])
  qed
next
  fix ds
  assume "p_filter a = None"
  then show "inputformat_calls (snd (executions e Filter (map dataset_token ds) (a, h)))
               = inputformat_calls h + length (remdups_adj (map schema ds))"
    by (rule executions_Filter_new [OF assms(1)])
qed

theorem filter_refits_witness:
  "filter_opt (options (demo_actor\<lparr>p_input := dataset_token data_A\<rparr>)) = PWrap WFilter 1
   \<and> p_filter (demo_actor\<lparr>p_input := dataset_token data_A\<rparr>) = None
   \<and> inputformat_calls (snd (executions demo_env Filter [dataset_token data_A]
        (demo_actor\<lparr>p_input := dataset_token data_A\<rparr>, demo_jvm))) = 1
   \<and> inputformat_calls (snd (executions demo_env Filter [dataset_token data_A, dataset_token data_A]
        (demo_actor\<lparr>p_input := dataset_token data_A\<rparr>, demo_jvm))) = 1
   \<and> inputformat_calls (snd (executions demo_env Filter [dataset_token data_A, dataset_token data_B]
        (demo_actor\<lparr>p_input := dataset_token data_A\<rparr>, demo_jvm))) = 2
   \<and> inputformat_calls (snd (snd (Filter_do_execute demo_env
        (demo_actor\<lparr>p_input := dataset_token data_A, p_filter := Some 0,
                     p_header := Some data_B\<rparr>, demo_jvm)))) = 1
   \<and> inputformat_calls (snd (snd (Filter_do_execute demo_env
        (demo_actor\<lparr>p_input := dataset_token data_A, p_filter := Some 0,
                     p_header := Some data_A\<rparr>, demo_jvm)))) = 0"
proof -
  let ?a = "demo_actor\<lparr>p_input := dataset_token data_A\<rparr>"
  let ?b = "demo_actor\<lparr>p_input := dataset_token data_A, p_filter := Some 0, p_header := Some data_B\<rparr>"
  let ?c = "demo_actor\<lparr>p_input := dataset_token data_A, p_filter := Some 0, p_header := Some data_A\<rparr>"
  have opt: "filter_opt (options ?a) = PWrap WFilter 1"
    by (simp add: demo_actor_def demo_options_def)
  have inp: "p_input ?a = Some (Token (PInstances data_A))"
    by (simp add: dataset_token_def)
  have new: "p_filter ?a = None"
    by (simp add: demo_actor_def)
  have seq: "inputformat_calls (snd (executions demo_env Filter (map dataset_token ds) (?a, demo_jvm)))
               = length (remdups_adj (map schema ds))" for ds
    using filter_refits [OF opt inp, of demo_env demo_jvm] new
    by (simp add: demo_jvm_def)
  have optb: "filter_opt (options ?b) = PWrap WFilter 1"
    by (simp add: demo_actor_def demo_options_def)
  have inpb: "p_input ?b = Some (Token (PInstances data_A))"
    by (simp add: dataset_token_def)
  have optc: "filter_opt (options ?c) = PWrap WFilter 1"
    by (simp add: demo_actor_def demo_options_def)
  have inpc: "p_input ?c = Some (Token (PInstances data_A))"
    by (simp add: dataset_token_def)
  have changed: "inputformat_calls (snd (snd (Filter_do_execute demo_env (?b, demo_jvm)))) = 1"
    using filter_refits [OF optb inpb, of demo_env demo_jvm]
    by (auto simp: demo_jvm_def data_A_def data_B_def)
  have same: "inputformat_calls (snd (snd (Filter_do_execute demo_env (?c, demo_jvm)))) = 0"
    using filter_refits [OF optc inpc, of demo_env demo_jvm]
    by (auto simp: demo_jvm_def data_A_def)
  show ?thesis
    using opt new seq [of "[data_A]"] seq [of "[data_A, data_A]"] seq [of "[data_A, data_B]"]
      changed same
    by (simp add: data_A_def data_B_def)
qed

section \<open>The configured template is never mutated\<close>

lemma train_copy_kept:
  assumes "t < next_free h"
  shows "(case train_copy w u data h of
            Inl (ex, h1) \<Rightarrow> objs h1 t = objs h t \<and> t < next_free h1
          | Inr (m, h1) \<Rightarrow> objs h1 t = objs h t \<and> t < next_free h1)"
  using assms
  by (auto simp: train_copy_def make_copy_def build_classifier_def split: sum.splits)

lemma Train_kept:
  assumes "template_inv t (a, h)"
  shows "kept t (a, h) (snd (Train_do_execute e (a, h)))"
proof -
  have t: "t < next_free h" and f: "p_filter a \<noteq> Some t"
    using assms by (simp_all add: template_inv_def)
  have base: "kept t (a, h) (a, h)"
    using t f by (simp add: kept_def template_inv_def)
  have copy: "kept t (a, h) (a\<lparr>p_output := q\<rparr>, h1)"
    if "objs h1 t = objs h t" and "t < next_free h1" for q h1
    using that f by (simp add: kept_def template_inv_def)
  have copy': "kept t (a, h) (a, h1)"
    if "objs h1 t = objs h t" and "t < next_free h1" for h1
    using that f by (simp add: kept_def template_inv_def)
  have branch: "kept t (a, h)
      (snd (case train_copy w u data h of
              Inl (ex, h1) \<Rightarrow> (Raised ex, a, h1)
            | Inr (m, h1) \<Rightarrow>
                (case as_instances data of
                   Inl ex \<Rightarrow> (Raised ex, a, h1)
                 | Inr d \<Rightarrow> (Returned None, a\<lparr>p_output := Q m d\<rparr>, h1))))" for w u data Q
    using train_copy_kept [OF t, of w u data] copy copy'
    by (auto split: sum.splits prod.splits)
  show ?thesis
    unfolding Train_do_execute_def
    using base branch
    by (auto simp: Let_def split: sum.splits pyval.splits wrapper.splits option.splits prod.splits)
qed

lemma CrossValidate_kept:
  assumes "template_inv t (a, h)"
  shows "kept t (a, h) (snd (CrossValidate_do_execute e (a, h)))"
proof -
  have t: "t < next_free h" and f: "p_filter a \<noteq> Some t"
    using assms by (simp_all add: template_inv_def)
  show ?thesis
    unfolding CrossValidate_do_execute_def
    using t f
    by (auto simp: Let_def kept_def template_inv_def make_copy_def Evaluation_init_def
          Evaluation_crossvalidate_model_def
          split: sum.splits pyval.splits wrapper.splits option.splits prod.splits)
qed

lemma Filter_refit_kept:
  assumes "t < next_free h" and "p_filter a \<noteq> Some t"
  shows "(case Filter_refit (a, h) d of
            Inl (ex, a1, h1) \<Rightarrow> kept t (a, h) (a1, h1)
          | Inr (a1, h1) \<Rightarrow> kept t (a, h) (a1, h1))"
  using assms
  by (auto simp: Filter_refit_def kept_def template_inv_def make_copy_def inputformat_def Let_def
        split: pyval.splits sum.splits)

lemma filter_call_kept:
  assumes "kept t s (a1, h1)" and "p_filter a1 = Some f"
  shows "kept t s (a1\<lparr>p_output := q\<rparr>, snd (filter_call e h1 f d))"
  using assms
  by (auto simp: kept_def template_inv_def filter_call_def)

lemma Filter_kept:
  assumes "template_inv t (a, h)"
  shows "kept t (a, h) (snd (Filter_do_execute e (a, h)))"
proof -
  have t: "t < next_free h" and f: "p_filter a \<noteq> Some t"
    using assms by (simp_all add: template_inv_def)
  have base: "kept t (a, h) (a, h)"
    using t f by (simp add: kept_def template_inv_def)
  have tail: "kept t (a, h)
      (snd (case p_filter a1 of
              None \<Rightarrow> (Raised (AttributeError ''filter''), a1, h1)
            | Some f \<Rightarrow>
                (let (filtered, h2) = filter_call e h1 f d in
                 (Returned None,
                  a1\<lparr>p_output := p_output a1 @ [Some (Token (PInstances filtered))]\<rparr>, h2))))"
    if k: "kept t (a, h) (a1, h1)" for a1 h1 d
  proof (cases "p_filter a1")
    case None
    with k show ?thesis by simp
  next
    case (Some f)
    with filter_call_kept [OF k Some, of _ e d] show ?thesis
      by (simp add: split_beta)
  qed
  show ?thesis
  proof (cases "input_payload a")
    case (Inl ex)
    with base show ?thesis by (simp add: Filter_do_execute_def)
  next
    case data: (Inr data)
    show ?thesis
    proof (cases "as_instances data")
      case (Inl ex)
      with base data show ?thesis by (simp add: Filter_do_execute_def)
    next
      case d: (Inr d)
      show ?thesis
      proof (cases "Filter_stale a d")
        case (Inl ex)
        with base data d show ?thesis by (simp add: Filter_do_execute_def)
      next
        case stale: (Inr stale)
        define r where "r = (if stale then Filter_refit (a, h) d else Inr (a, h))"
        have r: "(case r of Inl (ex, a1, h1) \<Rightarrow> kept t (a, h) (a1, h1)
                 | Inr (a1, h1) \<Rightarrow> kept t (a, h) (a1, h1))"
          using Filter_refit_kept [OF t f, of d] base by (simp add: r_def)
        have unfold: "Filter_do_execute e (a, h)
            = (case r of
                 Inl (ex, a1, h1) \<Rightarrow> (Raised ex, a1, h1)
               | Inr (a1, h1) \<Rightarrow>
                   (case p_filter a1 of
                      None \<Rightarrow> (Raised (AttributeError ''filter''), a1, h1)
                    | Some f \<Rightarrow>
                        (let (filtered, h2) = filter_call e h1 f d in
                         (Returned None,
                          a1\<lparr>p_output := p_output a1 @ [Some (Token (PInstances filtered))]\<rparr>,
                          h2))))"
          using data d stale by (simp add: Filter_do_execute_def r_def)
        show ?thesis
        proof (cases r)
          case (Inl x)
          then obtain ex a1 h1 where "r = Inl (ex, a1, h1)"
            by (cases x) auto
          with r show ?thesis by (simp add: unfold)
        next
          case (Inr y)
          then obtain a1 h1 where y: "r = Inr (a1, h1)"
            by (cases y) auto
          with r have "kept t (a, h) (a1, h1)" by simp
          from tail [OF this, of d] show ?thesis
            by (simp add: unfold y)
        qed
      qed
    qed
  qed
qed

lemma Train_trains_copy:
  assumes "setup_opt (options a) = PWrap WClassifier t"
      and "p_input a = Some (Token (PInstances d))"
  shows "Train_do_execute e (a, h)
           = (Returned None,
              a\<lparr>p_output := p_output a
                   @ [Some (Token (PModelContainer (PWrap WClassifier (next_free h))
                         (Some (PInstances (template_instances d)))))]\<rparr>,
              h\<lparr>objs := (objs h)(next_free h := (objs h t)\<lparr>built_on := Some d\<rparr>),
                next_free := Suc (next_free h)\<rparr>)"
  using assms
  by (simp add: Train_do_execute_def input_payload_def as_instances_def train_copy_def
        make_copy_def build_classifier_def)

lemma do_execute_kept:
  assumes "c \<in> {Train, CrossValidate, Filter}" and "template_inv t s"
  shows "kept t s (snd (do_execute e c s))"
  using assms Train_kept [of t "fst s" "snd s" e] CrossValidate_kept [of t "fst s" "snd s" e]
    Filter_kept [of t "fst s" "snd s" e]
  by (auto simp: do_execute_def)

lemma executions_kept:
  assumes "c \<in> {Train, CrossValidate, Filter}" and "template_inv t s"
  shows "kept t s (executions e c toks s)"
  using assms(2)
proof (induction toks arbitrary: s)
  case Nil
  then show ?case by (simp add: kept_def)
next
  case (Cons tok toks)
  let ?s1 = "((fst s)\<lparr>p_input := tok\<rparr>, snd s)"
  let ?s2 = "snd (do_execute e c ?s1)"
  have inv1: "template_inv t ?s1"
    using Cons.prems by (simp add: template_inv_def)
  have k1: "kept t ?s1 ?s2"
    by (rule do_execute_kept [OF assms(1) inv1])
  then have "template_inv t ?s2"
    by (simp add: kept_def)
  then have "kept t ?s2 (executions e c toks ?s2)"
    by (rule Cons.IH)
  with k1 show ?case
    by (simp add: kept_def)
qed

text \<open>
  Claim C2. Train, CrossValidate and Filter never change the configured template: over any
  number of executions, on any tokens and whatever the outcome of each, the Java object of
  the template held in the \<^verbatim>\<open>"setup"\<close> or \<^verbatim>\<open>"filter"\<close> option has the state it
  had before, and the options of the actor, the template among them, are the same. Every
  call that changes an object goes to a copy made in that execution or to the copy the
  Filter actor has cached.
\<close>

theorem template_not_mutated:
  assumes "c \<in> {Train, CrossValidate, Filter}"
      and "template c a = PWrap w t"
      and "t < next_free h"
      and "p_filter a \<noteq> Some t"
  shows "objs (snd (executions e c toks (a, h))) t = objs h t
       \<and> options (fst (executions e c toks (a, h))) = options a
       \<and> template c (fst (executions e c toks (a, h))) = PWrap w t"
proof -
  have "template_inv t (a, h)"
    using assms(3,4) by (simp add: template_inv_def)
  then have "kept t (a, h) (executions e c toks (a, h))"
    by (rule executions_kept [OF assms(1)])
  then have "objs (snd (executions e c toks (a, h))) t = objs h t"
    and opts: "options (fst (executions e c toks (a, h))) = options a"
    by (simp_all add: kept_def)
  moreover have "template c (fst (executions e c toks (a, h))) = template c a"
    unfolding template_def opts ..
  ultimately show ?thesis
    using assms(2) by simp
qed

theorem template_not_mutated_witness:
  "Train \<in> {Train, CrossValidate, Filter}
   \<and> template Train demo_actor = PWrap WClassifier 0
   \<and> 0 < next_free demo_jvm
   \<and> p_filter demo_actor \<noteq> Some 0
   \<and> objs (snd (executions demo_env Train [dataset_token data_A, dataset_token data_B]
                  (demo_actor, demo_jvm))) 0 = objs demo_jvm 0
   \<and> options (fst (executions demo_env Train [dataset_token data_A, dataset_token data_B]
                  (demo_actor, demo_jvm))) = options demo_actor
   \<and> objs (snd (executions demo_env CrossValidate [dataset_token data_A, dataset_token data_B]
                  (demo_actor, demo_jvm))) 0 = objs demo_jvm 0
   \<and> template Filter demo_actor = PWrap WFilter 1
   \<and> objs (snd (executions demo_env Filter [dataset_token data_A, dataset_token data_B]
                  (demo_actor, demo_jvm))) 1 = objs demo_jvm 1"
proof -
  have c: "Train \<in> {Train, CrossValidate, Filter}"
    and c': "CrossValidate \<in> {Train, CrossValidate, Filter}"
    and c'': "Filter \<in> {Train, CrossValidate, Filter}"
    by simp_all
  have tm: "template Train demo_actor = PWrap WClassifier 0"
    and tm': "template CrossValidate demo_actor = PWrap WClassifier 0"
    and tm'': "template Filter demo_actor = PWrap WFilter 1"
    by (simp_all add: template_def demo_actor_def demo_options_def)
  have al: "0 < next_free demo_jvm" and al': "1 < next_free demo_jvm"
    by (simp_all add: demo_jvm_def)
  have nf: "p_filter demo_actor \<noteq> Some 0" and nf': "p_filter demo_actor \<noteq> Some 1"
    by (simp_all add: demo_actor_def)
  show ?thesis
    using c tm al nf tm''
      template_not_mutated [OF c tm al nf, of demo_env "[dataset_token data_A, dataset_token data_B]"]
      template_not_mutated [OF c' tm' al nf, of demo_env "[dataset_token data_A, dataset_token data_B]"]
      template_not_mutated [OF c'' tm'' al' nf', of demo_env "[dataset_token data_A, dataset_token data_B]"]
    by simp
qed

end
